theory Spec2Isabelle
  imports Complex_Main
begin

section \<open>Values of the Python run time\<close>

text \<open>
  The exceptions that \<open>models.py\<close> can raise: \<open>ValueError\<close> from the conversions
  \<open>float(...)\<close> and from the date-time parser, \<open>AttributeError\<close> from reading an
  attribute of \<open>None\<close>.
\<close>

datatype error = ValueError | AttributeError

text \<open>
  A Python \<open>float\<close> by its value: the not-a-number value, the two infinities, or a finite
  number. The sign of a zero is not represented.
\<close>

datatype pyfloat = NaN | PosInf | NegInf | Finite rat

text \<open>Python's \<open>==\<close> and \<open>!=\<close> on floats: the not-a-number value equals nothing.\<close>

definition float_eq :: "pyfloat \<Rightarrow> pyfloat \<Rightarrow> bool" where
  "float_eq x y = (x \<noteq> NaN \<and> y \<noteq> NaN \<and> x = y)"

definition float_ne :: "pyfloat \<Rightarrow> pyfloat \<Rightarrow> bool" where
  "float_ne x y = (\<not> float_eq x y)"

text \<open>
  The builtin \<open>float(s)\<close> on a string. The literal \<open>'nan'\<close> gives the not-a-number
  value; the conversion of every other string is the parameter \<open>strtod\<close>, which answers
  \<open>None\<close> where the builtin raises \<open>ValueError\<close>.
\<close>

definition py_float :: "(string \<Rightarrow> pyfloat option) \<Rightarrow> string \<Rightarrow> error + pyfloat" where
  "py_float strtod s =
     (if s = ''nan'' then Inr NaN
      else case strtod s of None \<Rightarrow> Inl ValueError | Some x \<Rightarrow> Inr x)"

text \<open>
  How an f-string renders a value that is a string or \<open>None\<close>: a string as itself,
  \<open>None\<close> as the text \<open>None\<close>.
\<close>

definition format_opt_str :: "string option \<Rightarrow> string" where
  "format_opt_str v = (case v of None \<Rightarrow> ''None'' | Some s \<Rightarrow> s)"

section \<open>Date-times and the helpers\<close>

text \<open>A \<open>datetime\<close> to minute precision.\<close>

record datetime =
  year :: nat
  month :: nat
  day :: nat
  hour :: nat
  minute :: nat

definition is_leap :: "nat \<Rightarrow> bool" where
  "is_leap y = (y mod 4 = 0 \<and> (y mod 100 \<noteq> 0 \<or> y mod 400 = 0))"

definition days_in_month :: "nat \<Rightarrow> nat \<Rightarrow> nat" where
  "days_in_month y m =
     (if m = 2 then (if is_leap y then 29 else 28)
      else if m = 4 \<or> m = 6 \<or> m = 9 \<or> m = 11 then 30
      else 31)"

text \<open>The values that a \<open>datetime\<close> can hold: a day of the calendar in the years 1 to 9999.\<close>

definition valid_datetime :: "datetime \<Rightarrow> bool" where
  "valid_datetime dt =
     (1 \<le> year dt \<and> year dt \<le> 9999 \<and> 1 \<le> month dt \<and> month dt \<le> 12
      \<and> 1 \<le> day dt \<and> day dt \<le> days_in_month (year dt) (month dt)
      \<and> hour dt < 24 \<and> minute dt < 60)"

definition digits :: string where
  "digits = ''0123456789''"

definition month_names :: "string list" where
  "month_names = [''Jan'', ''Feb'', ''Mar'', ''Apr'', ''May'', ''Jun'',
                  ''Jul'', ''Aug'', ''Sep'', ''Oct'', ''Nov'', ''Dec'']"

text \<open>The position of the first occurrence of a value in a list.\<close>

fun index_of :: "'a \<Rightarrow> 'a list \<Rightarrow> nat option" where
  "index_of x [] = None"
| "index_of x (y # ys) = (if x = y then Some 0 else map_option Suc (index_of x ys))"

text \<open>Reading a run of decimal digits, and writing a number in a fixed count of digits.\<close>

fun parse_digits :: "nat \<Rightarrow> string \<Rightarrow> nat option" where
  "parse_digits acc [] = Some acc"
| "parse_digits acc (c # cs) =
     (case index_of c digits of
        None \<Rightarrow> None
      | Some d \<Rightarrow> parse_digits (10 * acc + d) cs)"

fun pad_digits :: "nat \<Rightarrow> nat \<Rightarrow> string" where
  "pad_digits 0 n = []"
| "pad_digits (Suc w) n = pad_digits w (n div 10) @ [digits ! (n mod 10)]"

text \<open>
  Modelled from the spec: \<open>helpers.cd_to_datetime\<close>, which \<open>models.py\<close> imports and
  which is not among the sources. The spec gives it as the parser of a time string in the
  fixed layout \<open>YYYY-MMM-DD HH:MM\<close>, with no seconds, whose failures are parse errors:
  four digits of the year, the three-letter month, two digits each of the day, the hour
  and the minute, and the result a date-time of the calendar.
\<close>

definition cd_to_datetime :: "string \<Rightarrow> error + datetime" where
  "cd_to_datetime s =
     (if length s = 17 \<and> s ! 4 = CHR ''-'' \<and> s ! 8 = CHR ''-''
         \<and> s ! 11 = CHR '' '' \<and> s ! 14 = CHR '':''
      then
        (case parse_digits 0 (take 4 s) of
           None \<Rightarrow> Inl ValueError
         | Some y \<Rightarrow>
        (case index_of (take 3 (drop 5 s)) month_names of
           None \<Rightarrow> Inl ValueError
         | Some m \<Rightarrow>
        (case parse_digits 0 (take 2 (drop 9 s)) of
           None \<Rightarrow> Inl ValueError
         | Some d \<Rightarrow>
        (case parse_digits 0 (take 2 (drop 12 s)) of
           None \<Rightarrow> Inl ValueError
         | Some h \<Rightarrow>
        (case parse_digits 0 (take 2 (drop 15 s)) of
           None \<Rightarrow> Inl ValueError
         | Some mi \<Rightarrow>
             (let dt = \<lparr>year = y, month = Suc m, day = d, hour = h, minute = mi\<rparr>
              in if valid_datetime dt then Inr dt else Inl ValueError))))))
      else Inl ValueError)"

text \<open>
  Modelled from the spec: \<open>helpers.datetime_to_str\<close>, which \<open>models.py\<close> imports and
  which is not among the sources. The spec gives it as the formatter of a date-time
  back to the same fixed layout with no seconds.
\<close>

definition datetime_to_str :: "datetime \<Rightarrow> string" where
  "datetime_to_str dt =
     pad_digits 4 (year dt) @ ''-'' @ month_names ! (month dt - 1) @ ''-''
       @ pad_digits 2 (day dt) @ '' '' @ pad_digits 2 (hour dt) @ '':''
       @ pad_digits 2 (minute dt)"

text \<open>
  The values that the serialisers put into a dictionary, and a dictionary as the list of
  its items in the order of insertion.
\<close>

datatype pyval =
  PyNone
| PyStr string
| PyFloat pyfloat
| PyBool bool
| PyDict "(string \<times> pyval) list"

definition opt_str_val :: "string option \<Rightarrow> pyval" where
  "opt_str_val v = (case v of None \<Rightarrow> PyNone | Some s \<Rightarrow> PyStr s)"

section \<open>The model classes\<close>

text \<open>
  \<open>NearEarthObject\<close> and \<open>CloseApproach\<close> refer to each other: an object holds the list
  of its approaches, an approach holds its object or \<open>None\<close>. The attribute
  \<open>_designation\<close> of an approach is the selector \<open>private_designation\<close>.
\<close>

datatype NearEarthObject =
  NearEarthObject
    (designation: string)
    (name: "string option")
    (diameter: pyfloat)
    (hazardous: bool)
    (approaches: "CloseApproach list")
and CloseApproach =
  CloseApproach
    (private_designation: string)
    (time: datetime)
    (distance: pyfloat)
    (velocity: pyfloat)
    (neo: "NearEarthObject option")

text \<open>
  \<open>NearEarthObject.__init__\<close>. The keyword arguments \<open>info\<close> are accepted and not read.
  The conversion of a non-empty diameter can raise, and then no object is made.
\<close>

definition NearEarthObject_init ::
  "(string \<Rightarrow> pyfloat option) \<Rightarrow> string \<Rightarrow> string \<Rightarrow> string \<Rightarrow> string
     \<Rightarrow> (string \<times> string) list \<Rightarrow> error + NearEarthObject" where
  "NearEarthObject_init strtod designation' name' diameter' hazardous' info =
     (let self_name = (if length name' \<noteq> 0 then Some name' else None) in
      case (if length diameter' \<noteq> 0 then py_float strtod diameter'
            else py_float strtod ''nan'') of
        Inl e \<Rightarrow> Inl e
      | Inr self_diameter \<Rightarrow>
          let self_hazardous = (if hazardous' = ''Y'' then True else False) in
          Inr (NearEarthObject designation' self_name self_diameter self_hazardous []))"

text \<open>The property \<open>NearEarthObject.fullname\<close>.\<close>

definition NearEarthObject_fullname :: "NearEarthObject \<Rightarrow> string" where
  "NearEarthObject_fullname self =
     designation self @ '' ('' @ format_opt_str (name self) @ '')''"

text \<open>
  \<open>NearEarthObject.__str__\<close>. The text of a float in an f-string is the parameter
  \<open>float_repr\<close>.
\<close>

definition NearEarthObject_str :: "(pyfloat \<Rightarrow> string) \<Rightarrow> NearEarthObject \<Rightarrow> string" where
  "NearEarthObject_str float_repr self =
     ''NEO '' @ NearEarthObject_fullname self @ '' has a diameter of ''
       @ float_repr (diameter self) @ '' km and ''
       @ (if hazardous self then ''is'' else ''is not'') @ '' potentially hazardous''"

text \<open>
  \<open>CloseApproach.__init__\<close>: the time, the distance and the velocity are converted in
  this order, and the first conversion that raises ends the construction.
\<close>

definition CloseApproach_init ::
  "(string \<Rightarrow> pyfloat option) \<Rightarrow> string \<Rightarrow> string \<Rightarrow> string \<Rightarrow> string
     \<Rightarrow> (string \<times> string) list \<Rightarrow> error + CloseApproach" where
  "CloseApproach_init strtod designation' time' distance' velocity' info =
     (case cd_to_datetime time' of
        Inl e \<Rightarrow> Inl e
      | Inr self_time \<Rightarrow>
     (case py_float strtod distance' of
        Inl e \<Rightarrow> Inl e
      | Inr self_distance \<Rightarrow>
     (case py_float strtod velocity' of
        Inl e \<Rightarrow> Inl e
      | Inr self_velocity \<Rightarrow>
          Inr (CloseApproach designation' self_time self_distance self_velocity None))))"

text \<open>
  The property \<open>CloseApproach.fullname\<close>: the f-string renders the attribute \<open>neo\<close>
  with \<open>str\<close>, which is \<open>NearEarthObject.__str__\<close> on an object and the text \<open>None\<close>
  on \<open>None\<close>.
\<close>

definition CloseApproach_fullname :: "(pyfloat \<Rightarrow> string) \<Rightarrow> CloseApproach \<Rightarrow> string" where
  "CloseApproach_fullname float_repr self =
     private_designation self @ '': ''
       @ (case neo self of None \<Rightarrow> ''None'' | Some n \<Rightarrow> NearEarthObject_str float_repr n)"

text \<open>The property \<open>CloseApproach.time_str\<close>.\<close>

definition time_str :: "CloseApproach \<Rightarrow> string" where
  "time_str self = datetime_to_str (time self)"

text \<open>
  \<open>CloseApproach.json_serialize\<close>. The items of the dictionary are evaluated in the
  order written; reading an attribute of \<open>self.neo\<close> raises \<open>AttributeError\<close> when
  \<open>self.neo\<close> is \<open>None\<close>.
\<close>

definition json_serialize :: "CloseApproach \<Rightarrow> error + (string \<times> pyval) list" where
  "json_serialize self =
     (let datetime_utc = time_str self;
          distance_au = distance self;
          velocity_km_s = velocity self
      in case neo self of
           None \<Rightarrow> Inl AttributeError
         | Some n \<Rightarrow>
             Inr [(''datetime_utc'', PyStr datetime_utc),
                  (''distance_au'', PyFloat distance_au),
                  (''velocity_km_s'', PyFloat velocity_km_s),
                  (''neo'', PyDict
                     [(''designation'', PyStr (designation n)),
                      (''name'', opt_str_val (name n)),
                      (''diameter_km'', PyFloat (diameter n)),
                      (''potentially_hazardous'', PyBool (hazardous n))])])"

text \<open>\<open>CloseApproach.csv_serialize\<close>, with the same order of evaluation.\<close>

definition csv_serialize :: "CloseApproach \<Rightarrow> error + (string \<times> pyval) list" where
  "csv_serialize self =
     (let datetime_utc = time_str self;
          distance_au = distance self;
          velocity_km_s = velocity self
      in case neo self of
           None \<Rightarrow> Inl AttributeError
         | Some n \<Rightarrow>
             Inr [(''datetime_utc'', PyStr datetime_utc),
                  (''distance_au'', PyFloat distance_au),
                  (''velocity_km_s'', PyFloat velocity_km_s),
                  (''designation'', PyStr (designation n)),
                  (''name'', opt_str_val (name n)),
                  (''diameter_km'', PyFloat (diameter n)),
                  (''potentially_hazardous'', PyBool (hazardous n))])"

section \<open>Construction of a near-Earth object\<close>

lemma NearEarthObject_init_Inr:
  assumes "NearEarthObject_init strtod d n dia h info = Inr obj"
  shows "designation obj = d"
    and "name obj = (if n = [] then None else Some n)"
    and "hazardous obj = (h = ''Y'')"
    and "approaches obj = []"
    and "dia = [] \<Longrightarrow> diameter obj = NaN"
    and "dia \<noteq> [] \<Longrightarrow> py_float strtod dia = Inr (diameter obj)"
  using assms
  by (auto simp: NearEarthObject_init_def py_float_def Let_def split: sum.splits if_splits)

lemma NearEarthObject_init_empty_diameter:
  "NearEarthObject_init strtod d n [] h info =
     Inr (NearEarthObject d (if n = [] then None else Some n) NaN (h = ''Y'') [])"
  by (simp add: NearEarthObject_init_def py_float_def)

lemma NearEarthObject_init_numeric_diameter:
  assumes "dia \<noteq> []" and "py_float strtod dia = Inr x"
  shows "NearEarthObject_init strtod d n dia h info =
           Inr (NearEarthObject d (if n = [] then None else Some n) x (h = ''Y'') [])"
  using assms by (simp add: NearEarthObject_init_def)

lemma NearEarthObject_init_Eros:
  "NearEarthObject_init
     (\<lambda>s. if s = ''16.84'' then Some (Finite (4740038607807447 / 281474976710656)) else None)
     ''433'' ''Eros'' ''16.84'' ''N'' []
   = Inr (NearEarthObject ''433'' (Some ''Eros'')
            (Finite (4740038607807447 / 281474976710656)) False [])"
  by (simp add: NearEarthObject_init_def py_float_def)

text \<open>
  Claim C1. For every object that the constructor makes, the attribute \<open>hazardous\<close> is
  true exactly when the input string is \<open>Y\<close>; every other input, the empty string among
  them, gives false.
\<close>

theorem C1_hazardous_iff_Y:
  "NearEarthObject_init strtod d n dia h info = Inr obj \<Longrightarrow> hazardous obj = (h = ''Y'')"
  by (rule NearEarthObject_init_Inr(3))

theorem C1_hazardous_iff_Y_witness:
  "NearEarthObject_init (\<lambda>s. None) ''433'' ''Eros'' [] ''Y'' []
     = Inr (NearEarthObject ''433'' (Some ''Eros'') NaN True [])
   \<and> hazardous (NearEarthObject ''433'' (Some ''Eros'') NaN True [])
   \<and> NearEarthObject_init (\<lambda>s. None) ''433'' ''Eros'' [] ''y'' []
     = Inr (NearEarthObject ''433'' (Some ''Eros'') NaN False [])
   \<and> \<not> hazardous (NearEarthObject ''433'' (Some ''Eros'') NaN False [])"
proof -
  have yes: "NearEarthObject_init (\<lambda>s. None) ''433'' ''Eros'' [] ''Y'' []
               = Inr (NearEarthObject ''433'' (Some ''Eros'') NaN True [])"
    by (simp add: NearEarthObject_init_empty_diameter)
  have no: "NearEarthObject_init (\<lambda>s. None) ''433'' ''Eros'' [] ''y'' []
              = Inr (NearEarthObject ''433'' (Some ''Eros'') NaN False [])"
    by (simp add: NearEarthObject_init_empty_diameter)
  show ?thesis
    using yes no C1_hazardous_iff_Y [OF yes] C1_hazardous_iff_Y [OF no] by simp
qed

text \<open>
  Claim C2. For every object that the constructor makes from a name string: an empty name
  is stored as \<open>None\<close>, a non-empty name is stored unchanged, and the stored name is never
  the empty string.
\<close>

theorem C2_name_normalised:
  "NearEarthObject_init strtod d n dia h info = Inr obj \<Longrightarrow>
     (n = [] \<longrightarrow> name obj = None) \<and> (n \<noteq> [] \<longrightarrow> name obj = Some n) \<and> name obj \<noteq> Some []"
  by (auto dest: NearEarthObject_init_Inr(2) split: if_splits)

theorem C2_name_normalised_witness:
  "NearEarthObject_init (\<lambda>s. None) ''2020 AB'' [] [] ''N'' []
     = Inr (NearEarthObject ''2020 AB'' None NaN False [])
   \<and> name (NearEarthObject ''2020 AB'' None NaN False []) = None
   \<and> name (NearEarthObject ''433'' (Some ''Eros'')
        (Finite (4740038607807447 / 281474976710656)) False []) = Some ''Eros''"
proof -
  have empty: "NearEarthObject_init (\<lambda>s. None) ''2020 AB'' [] [] ''N'' []
                 = Inr (NearEarthObject ''2020 AB'' None NaN False [])"
    by (simp add: NearEarthObject_init_empty_diameter)
  show ?thesis
    using empty C2_name_normalised [OF empty] C2_name_normalised [OF NearEarthObject_init_Eros]
    by simp
qed

text \<open>
  Claim C3. An empty diameter string makes an object whose \<open>diameter\<close> is the not-a-number
  value, which is unequal to itself and unequal to \<open>0.0\<close>. A non-empty diameter string
  that \<open>float\<close> converts makes an object whose \<open>diameter\<close> is the converted value, and
  whenever an object is made from a non-empty diameter string its \<open>diameter\<close> is that
  conversion.
\<close>

theorem C3_diameter_normalised:
  "(\<exists>obj. NearEarthObject_init strtod d n [] h info = Inr obj \<and> diameter obj = NaN
        \<and> float_ne (diameter obj) (diameter obj) \<and> float_ne (diameter obj) (Finite 0))
   \<and> (dia \<noteq> [] \<longrightarrow> py_float strtod dia = Inr x \<longrightarrow>
        (\<exists>obj. NearEarthObject_init strtod d n dia h info = Inr obj \<and> diameter obj = x))
   \<and> (dia \<noteq> [] \<longrightarrow> NearEarthObject_init strtod d n dia h info = Inr obj' \<longrightarrow>
        py_float strtod dia = Inr (diameter obj'))"
proof (intro conjI impI)
  show "\<exists>obj. NearEarthObject_init strtod d n [] h info = Inr obj \<and> diameter obj = NaN
          \<and> float_ne (diameter obj) (diameter obj) \<and> float_ne (diameter obj) (Finite 0)"
    by (simp add: NearEarthObject_init_empty_diameter float_ne_def float_eq_def)
next
  assume "dia \<noteq> []" and "py_float strtod dia = Inr x"
  then show "\<exists>obj. NearEarthObject_init strtod d n dia h info = Inr obj \<and> diameter obj = x"
    by (simp add: NearEarthObject_init_numeric_diameter)
next
  assume "dia \<noteq> []" and "NearEarthObject_init strtod d n dia h info = Inr obj'"
  then show "py_float strtod dia = Inr (diameter obj')"
    by (simp add: NearEarthObject_init_Inr(6))
qed

theorem C3_diameter_normalised_witness:
  "diameter (NearEarthObject ''433'' (Some ''Eros'')
       (Finite (4740038607807447 / 281474976710656)) False [])
     = Finite (4740038607807447 / 281474976710656)
   \<and> py_float (\<lambda>s. if s = ''16.84'' then Some (Finite (4740038607807447 / 281474976710656))
                     else None) ''16.84''
     = Inr (Finite (4740038607807447 / 281474976710656))
   \<and> (\<exists>obj. NearEarthObject_init
         (\<lambda>s. if s = ''16.84'' then Some (Finite (4740038607807447 / 281474976710656))
               else None) ''433'' ''Eros'' [] ''N'' [] = Inr obj
        \<and> diameter obj = NaN \<and> float_ne (diameter obj) (diameter obj)
        \<and> float_ne (diameter obj) (Finite 0))"
  using C3_diameter_normalised
          [of "\<lambda>s. if s = ''16.84'' then Some (Finite (4740038607807447 / 281474976710656))
                    else None"
              "''433''" "''Eros''" "''N''" "[]" "''16.84''"
              "Finite (4740038607807447 / 281474976710656)"
              "NearEarthObject ''433'' (Some ''Eros'')
                 (Finite (4740038607807447 / 281474976710656)) False []"]
        NearEarthObject_init_Eros
  by (simp add: py_float_def)

section \<open>Names and summaries\<close>

text \<open>
  Claim C7. For every object whose name is present, \<open>fullname\<close> is the designation,
  a space, and the name in parentheses; the object made from the designation \<open>433\<close> and
  the name \<open>Eros\<close> has the full name \<open>433 (Eros)\<close>.
\<close>

theorem C7_fullname_named:
  "(name self = Some nm \<longrightarrow>
      NearEarthObject_fullname self = designation self @ '' ('' @ nm @ '')'')
   \<and> (NearEarthObject_init strtod ''433'' ''Eros'' dia h info = Inr obj \<longrightarrow>
      NearEarthObject_fullname obj = ''433 (Eros)'')"
proof (intro conjI impI)
  assume "name self = Some nm"
  then show "NearEarthObject_fullname self = designation self @ '' ('' @ nm @ '')''"
    by (simp add: NearEarthObject_fullname_def format_opt_str_def)
next
  assume made: "NearEarthObject_init strtod ''433'' ''Eros'' dia h info = Inr obj"
  have "designation obj = ''433''" and "name obj = Some ''Eros''"
    using NearEarthObject_init_Inr(1,2) [OF made] by simp_all
  then show "NearEarthObject_fullname obj = ''433 (Eros)''"
    by (simp add: NearEarthObject_fullname_def format_opt_str_def)
qed

theorem C7_fullname_named_witness:
  "NearEarthObject_init
     (\<lambda>s. if s = ''16.84'' then Some (Finite (4740038607807447 / 281474976710656)) else None)
     ''433'' ''Eros'' ''16.84'' ''N'' []
   = Inr (NearEarthObject ''433'' (Some ''Eros'')
            (Finite (4740038607807447 / 281474976710656)) False [])
   \<and> NearEarthObject_fullname (NearEarthObject ''433'' (Some ''Eros'')
        (Finite (4740038607807447 / 281474976710656)) False []) = ''433 (Eros)''"
  using C7_fullname_named
          [of "NearEarthObject ''433'' (Some ''Eros'')
                 (Finite (4740038607807447 / 281474976710656)) False []"
              "''Eros''"
              "\<lambda>s. if s = ''16.84'' then Some (Finite (4740038607807447 / 281474976710656))
                    else None"
              "''16.84''" "''N''" "[]"
              "NearEarthObject ''433'' (Some ''Eros'')
                 (Finite (4740038607807447 / 281474976710656)) False []"]
        NearEarthObject_init_Eros
  by simp

text \<open>
  Claim C10. For every object made from an empty name string, \<open>fullname\<close> is the
  designation followed by \<open>(None)\<close>: the text \<open>None\<close> stands in the parentheses, so the
  full name is neither the designation alone nor the designation with empty parentheses.
\<close>

theorem C10_fullname_unnamed:
  "NearEarthObject_init strtod d [] dia h info = Inr obj \<Longrightarrow>
     NearEarthObject_fullname obj = d @ '' (None)''
     \<and> NearEarthObject_fullname obj \<noteq> d @ '' ()''
     \<and> NearEarthObject_fullname obj \<noteq> d"
proof -
  assume made: "NearEarthObject_init strtod d [] dia h info = Inr obj"
  have "designation obj = d" and "name obj = None"
    using NearEarthObject_init_Inr(1,2) [OF made] by simp_all
  then show ?thesis
    by (simp add: NearEarthObject_fullname_def format_opt_str_def)
qed

theorem C10_fullname_unnamed_witness:
  "NearEarthObject_init (\<lambda>s. None) ''2020 AB'' [] [] ''Y'' []
     = Inr (NearEarthObject ''2020 AB'' None NaN True [])
   \<and> NearEarthObject_fullname (NearEarthObject ''2020 AB'' None NaN True [])
     = ''2020 AB (None)''"
proof -
  have made: "NearEarthObject_init (\<lambda>s. None) ''2020 AB'' [] [] ''Y'' []
                = Inr (NearEarthObject ''2020 AB'' None NaN True [])"
    by (simp add: NearEarthObject_init_empty_diameter)
  show ?thesis using made C10_fullname_unnamed [OF made] by simp
qed

text \<open>
  Claim C8. For every close approach, \<open>fullname\<close> is the approach's own designation,
  a colon and a space, and then the text of \<open>str(self.neo)\<close>. With an object
  linked, that text is the object's whole summary (\<open>NEO ... has a diameter of ... km
  and is/is not potentially hazardous\<close>), which is not the object's name alone; with
  none linked, it is the text \<open>None\<close>.
\<close>

theorem C8_approach_fullname:
  "(neo self = Some n \<longrightarrow>
      CloseApproach_fullname float_repr self
        = private_designation self @ '': '' @ NearEarthObject_str float_repr n
      \<and> NearEarthObject_str float_repr n
        = ''NEO '' @ designation n @ '' ('' @ format_opt_str (name n) @ '')''
            @ '' has a diameter of '' @ float_repr (diameter n) @ '' km and ''
            @ (if hazardous n then ''is'' else ''is not'') @ '' potentially hazardous''
      \<and> CloseApproach_fullname float_repr self
        \<noteq> private_designation self @ '': '' @ format_opt_str (name n))
   \<and> (neo self = None \<longrightarrow>
      CloseApproach_fullname float_repr self = private_designation self @ '': None'')"
proof (intro conjI impI)
  assume linked: "neo self = Some n"
  then show full: "CloseApproach_fullname float_repr self
                     = private_designation self @ '': '' @ NearEarthObject_str float_repr n"
    by (simp add: CloseApproach_fullname_def)
  show "NearEarthObject_str float_repr n
          = ''NEO '' @ designation n @ '' ('' @ format_opt_str (name n) @ '')''
              @ '' has a diameter of '' @ float_repr (diameter n) @ '' km and ''
              @ (if hazardous n then ''is'' else ''is not'') @ '' potentially hazardous''"
    by (simp add: NearEarthObject_str_def NearEarthObject_fullname_def)
  have "length (format_opt_str (name n)) < length (NearEarthObject_str float_repr n)"
    by (simp add: NearEarthObject_str_def NearEarthObject_fullname_def)
  then have "NearEarthObject_str float_repr n \<noteq> format_opt_str (name n)"
    by auto
  then show "CloseApproach_fullname float_repr self
               \<noteq> private_designation self @ '': '' @ format_opt_str (name n)"
    by (simp add: full)
next
  assume "neo self = None"
  then show "CloseApproach_fullname float_repr self = private_designation self @ '': None''"
    by (simp add: CloseApproach_fullname_def)
qed

theorem C8_approach_fullname_witness:
  "CloseApproach_fullname (\<lambda>x. if x = NaN then ''nan'' else ''?'')
     (CloseApproach ''433''
        \<lparr>year = 2020, month = 1, day = 1, hour = 12, minute = 30\<rparr>
        (Finite (1 / 2)) (Finite (25 / 2))
        (Some (NearEarthObject ''433'' (Some ''Eros'') NaN False [])))
   = ''433: NEO 433 (Eros) has a diameter of nan km and is not potentially hazardous''
   \<and> CloseApproach_fullname (\<lambda>x. if x = NaN then ''nan'' else ''?'')
     (CloseApproach ''433''
        \<lparr>year = 2020, month = 1, day = 1, hour = 12, minute = 30\<rparr>
        (Finite (1 / 2)) (Finite (25 / 2)) None)
   = ''433: None''"
  using C8_approach_fullname
          [of "CloseApproach ''433''
                 \<lparr>year = 2020, month = 1, day = 1, hour = 12, minute = 30\<rparr>
                 (Finite (1 / 2)) (Finite (25 / 2))
                 (Some (NearEarthObject ''433'' (Some ''Eros'') NaN False []))"
              "NearEarthObject ''433'' (Some ''Eros'') NaN False []"
              "\<lambda>x. if x = NaN then ''nan'' else ''?''"]
        C8_approach_fullname
          [of "CloseApproach ''433''
                 \<lparr>year = 2020, month = 1, day = 1, hour = 12, minute = 30\<rparr>
                 (Finite (1 / 2)) (Finite (25 / 2)) None"
              "NearEarthObject ''433'' (Some ''Eros'') NaN False []"
              "\<lambda>x. if x = NaN then ''nan'' else ''?''"]
  by (simp add: format_opt_str_def)

section \<open>The state after construction\<close>

text \<open>
  Claim C9, as the claim states it, fails: the constructor stores the designation it is
  given without a check, so the empty designation makes an object whose designation is
  empty.
\<close>

theorem C9_empty_designation_counterexample:
  "NearEarthObject_init (\<lambda>s. None) [] ''Eros'' [] ''N'' []
     = Inr (NearEarthObject [] (Some ''Eros'') NaN False [])
   \<and> designation (NearEarthObject [] (Some ''Eros'') NaN False []) = []"
  by (simp add: NearEarthObject_init_empty_diameter)

text \<open>
  Claim C9, amended. For every object that the constructor makes, the designation is the
  designation given to the constructor, unchanged, so it is non-empty exactly when the
  given one is; and the collection \<open>approaches\<close> is empty.
\<close>

theorem C9_constructor_state:
  "NearEarthObject_init strtod d n dia h info = Inr obj \<Longrightarrow>
     designation obj = d \<and> (designation obj \<noteq> [] \<longleftrightarrow> d \<noteq> []) \<and> approaches obj = []"
  by (simp add: NearEarthObject_init_Inr(1,4))

theorem C9_constructor_state_witness:
  "NearEarthObject_init
     (\<lambda>s. if s = ''16.84'' then Some (Finite (4740038607807447 / 281474976710656)) else None)
     ''433'' ''Eros'' ''16.84'' ''N'' []
   = Inr (NearEarthObject ''433'' (Some ''Eros'')
            (Finite (4740038607807447 / 281474976710656)) False [])
   \<and> designation (NearEarthObject ''433'' (Some ''Eros'')
        (Finite (4740038607807447 / 281474976710656)) False []) = ''433''
   \<and> approaches (NearEarthObject ''433'' (Some ''Eros'')
        (Finite (4740038607807447 / 281474976710656)) False []) = []"
  using NearEarthObject_init_Eros C9_constructor_state [OF NearEarthObject_init_Eros]
  by simp

section \<open>The time of a close approach\<close>

lemma length_pad_digits: "length (pad_digits w n) = w"
  by (induction w arbitrary: n) simp_all

lemma index_of_nth_distinct:
  "distinct xs \<Longrightarrow> i < length xs \<Longrightarrow> index_of (xs ! i) xs = Some i"
proof (induction xs arbitrary: i)
  case Nil
  then show ?case by simp
next
  case (Cons x xs)
  show ?case
  proof (cases i)
    case 0
    then show ?thesis by simp
  next
    case (Suc j)
    with Cons.prems have "j < length xs" and "xs ! j \<in> set xs" and "x \<notin> set xs" and "distinct xs"
      by simp_all
    then have "x \<noteq> xs ! j" and "index_of (xs ! j) xs = Some j"
      using Cons.IH by auto
    with Suc show ?thesis by simp
  qed
qed

lemma index_of_Some:
  "index_of x xs = Some i \<Longrightarrow> i < length xs \<and> xs ! i = x"
  by (induction xs arbitrary: i) (auto split: if_splits)

lemma distinct_digits: "distinct digits" and length_digits: "length digits = 10"
  by (simp_all add: digits_def)

lemma distinct_month_names: "distinct month_names" and length_month_names: "length month_names = 12"
  by (simp_all add: month_names_def)

lemma index_of_digit: "d < 10 \<Longrightarrow> index_of (digits ! d) digits = Some d"
  by (simp add: index_of_nth_distinct distinct_digits length_digits)

lemma parse_digits_append:
  "parse_digits acc (xs @ ys) =
     (case parse_digits acc xs of None \<Rightarrow> None | Some a \<Rightarrow> parse_digits a ys)"
  by (induction xs arbitrary: acc) (simp_all split: option.splits)

lemma parse_pad_digits: "parse_digits 0 (pad_digits w n) = Some (n mod 10 ^ w)"
proof (induction w arbitrary: n)
  case 0
  then show ?case by simp
next
  case (Suc w)
  have "parse_digits 0 (pad_digits (Suc w) n) = Some (10 * (n div 10 mod 10 ^ w) + n mod 10)"
    by (simp add: parse_digits_append Suc.IH index_of_digit)
  also have "10 * (n div 10 mod 10 ^ w) + n mod 10 = n mod 10 ^ Suc w"
    by (simp add: mod_mult2_eq)
  finally show ?case .
qed

lemma parse_pad_digits_small: "n < 10 ^ w \<Longrightarrow> parse_digits 0 (pad_digits w n) = Some n"
  by (simp add: parse_pad_digits)

lemma length_month_name: "m < 12 \<Longrightarrow> length (month_names ! m) = 3"
proof -
  assume "m < 12"
  then have "month_names ! m \<in> set month_names"
    by (simp add: length_month_names)
  then show ?thesis
    by (auto simp: month_names_def)
qed

lemma layout_fields:
  assumes "length y = 4" "length m = 3" "length d = 2" "length h = 2" "length mi = 2"
  defines "s \<equiv> y @ ''-'' @ m @ ''-'' @ d @ '' '' @ h @ '':'' @ mi"
  shows "length s = 17" 
    and "s ! 4 = CHR ''-''" and "s ! 8 = CHR ''-''" and "s ! 11 = CHR '' ''" and "s ! 14 = CHR '':''"
    and "take 4 s = y" and "take 3 (drop 5 s) = m" and "take 2 (drop 9 s) = d" 
    and "take 2 (drop 12 s) = h" and "take 2 (drop 15 s) = mi"
  using assms by (simp_all add: nth_append)

lemma cd_to_datetime_valid: "cd_to_datetime s = Inr dt \<Longrightarrow> valid_datetime dt"
  by (auto simp: cd_to_datetime_def Let_def split: if_splits option.splits)

lemma cd_to_datetime_datetime_to_str:
  assumes "valid_datetime dt"
  shows "cd_to_datetime (datetime_to_str dt) = Inr dt"
proof -
  from assms have m: "month dt - 1 < 12" and m': "Suc (month dt - 1) = month dt"
    and y: "year dt < 10 ^ 4" and d: "day dt < 10 ^ 2" and h: "hour dt < 10 ^ 2" and mi: "minute dt < 10 ^ 2"
    by (auto simp: valid_datetime_def days_in_month_def split: if_splits)
  note f = layout_fields [OF length_pad_digits [of 4 "year dt"] length_month_name [OF m]
      length_pad_digits [of 2 "day dt"] length_pad_digits [of 2 "hour dt"] length_pad_digits [of 2 "minute dt"]]
  have mn: "index_of (month_names ! (month dt - 1)) month_names = Some (month dt - 1)"
    using m by (simp add: index_of_nth_distinct distinct_month_names length_month_names)
  have rebuilt: "\<lparr>year = year dt, month = Suc (month dt - 1), day = day dt,
                 hour = hour dt, minute = minute dt\<rparr> = dt"
    by (simp only: m') simp
  have "cd_to_datetime (datetime_to_str dt) =
          (let dt' = \<lparr>year = year dt, month = Suc (month dt - 1), day = day dt,
                       hour = hour dt, minute = minute dt\<rparr>
           in if valid_datetime dt' then Inr dt' else Inl ValueError)"
    unfolding cd_to_datetime_def datetime_to_str_def
    by (simp only: f parse_pad_digits_small [OF y] parse_pad_digits_small [OF d]
         parse_pad_digits_small [OF h] parse_pad_digits_small [OF mi] mn
         option.case if_True simp_thms)
  also have "\<dots> = Inr dt"
    using assms by (simp only: rebuilt Let_def if_True)
  finally show ?thesis .
qed

lemma pad_digits_parse:
  "parse_digits 0 xs = Some n \<Longrightarrow> pad_digits (length xs) n = xs"
proof (induction xs arbitrary: n rule: rev_induct)
  case Nil
  then show ?case by simp
next
  case (snoc c xs)
  from snoc.prems obtain a d where a: "parse_digits 0 xs = Some a"
    and d: "index_of c digits = Some d" and n: "n = 10 * a + d"
    by (auto simp: parse_digits_append split: option.splits)
  from d have "d < 10" and "digits ! d = c"
    using index_of_Some [OF d] by (simp_all add: length_digits)
  then show ?case
    using snoc.IH [OF a] n by simp
qed

lemma datetime_to_str_cd_to_datetime:
  assumes "cd_to_datetime s = Inr dt"
  shows "datetime_to_str dt = s"
proof -
  from assms have len: "length s = 17"
    and seps: "s ! 4 = CHR ''-''" "s ! 8 = CHR ''-''" "s ! 11 = CHR '' ''" "s ! 14 = CHR '':''"
    by (auto simp: cd_to_datetime_def split: if_splits)
  from assms len seps obtain m where
        y: "parse_digits 0 (take 4 s) = Some (year dt)"
    and m: "index_of (take 3 (drop 5 s)) month_names = Some m" "month dt = Suc m"
    and d: "parse_digits 0 (take 2 (drop 9 s)) = Some (day dt)"
    and h: "parse_digits 0 (take 2 (drop 12 s)) = Some (hour dt)"
    and mi: "parse_digits 0 (take 2 (drop 15 s)) = Some (minute dt)"
    by (auto simp: cd_to_datetime_def Let_def split: if_splits option.splits)
  have py: "pad_digits 4 (year dt) = take 4 s"
    using pad_digits_parse [OF y] len by simp
  have pd: "pad_digits 2 (day dt) = take 2 (drop 9 s)"
    using pad_digits_parse [OF d] len by simp
  have ph: "pad_digits 2 (hour dt) = take 2 (drop 12 s)"
    using pad_digits_parse [OF h] len by simp
  have pmi: "pad_digits 2 (minute dt) = take 2 (drop 15 s)"
    using pad_digits_parse [OF mi] len by simp
  have pm: "month_names ! (month dt - 1) = take 3 (drop 5 s)"
    using index_of_Some [OF m(1)] m(2) by simp
  have cut: "drop i s = s ! i # drop (Suc i) s" if "i < 17" for i
    using that len by (simp add: Cons_nth_drop_Suc)
  have fld: "drop i s = take k (drop i s) @ drop (i + k) s" for i k
    by (metis append_take_drop_id drop_drop add.commute)
  have "s = take 4 s @ drop 4 s"
    by simp
  also have "drop 4 s = CHR ''-'' # drop 5 s"
    using cut [of 4] seps by simp
  also have "drop 5 s = take 3 (drop 5 s) @ drop 8 s"
    using fld [of 5 3] by simp
  also have "drop 8 s = CHR ''-'' # drop 9 s"
    using cut [of 8] seps by simp
  also have "drop 9 s = take 2 (drop 9 s) @ drop 11 s"
    using fld [of 9 2] by simp
  also have "drop 11 s = CHR '' '' # drop 12 s"
    using cut [of 11] seps by simp
  also have "drop 12 s = take 2 (drop 12 s) @ drop 14 s"
    using fld [of 12 2] by simp
  also have "drop 14 s = CHR '':'' # drop 15 s"
    using cut [of 14] seps by simp
  also have "drop 15 s = take 2 (drop 15 s)"
    using len by simp
  finally have "s = take 4 s @ ''-'' @ take 3 (drop 5 s) @ ''-'' @ take 2 (drop 9 s)
                 @ '' '' @ take 2 (drop 12 s) @ '':'' @ take 2 (drop 15 s)"
    by simp
  then show ?thesis
    unfolding datetime_to_str_def py pd ph pmi pm by simp
qed

lemma CloseApproach_init_Inr:
  assumes "CloseApproach_init strtod dsg t ds vl info = Inr ca"
  shows "cd_to_datetime t = Inr (time ca)"
    and "private_designation ca = dsg"
    and "neo ca = None"
  using assms
  by (auto simp: CloseApproach_init_def split: sum.splits)

lemma cd_to_datetime_example:
  "cd_to_datetime ''2020-Jan-01 12:30''
     = Inr \<lparr>year = 2020, month = 1, day = 1, hour = 12, minute = 30\<rparr>"
  by code_simp

lemma CloseApproach_init_example:
  "CloseApproach_init
     (\<lambda>s. if s = ''0.5'' then Some (Finite (1 / 2))
           else if s = ''12.5'' then Some (Finite (25 / 2)) else None)
     ''433'' ''2020-Jan-01 12:30'' ''0.5'' ''12.5'' []
   = Inr (CloseApproach ''433''
            \<lparr>year = 2020, month = 1, day = 1, hour = 12, minute = 30\<rparr>
            (Finite (1 / 2)) (Finite (25 / 2)) None)"
  by (simp add: CloseApproach_init_def cd_to_datetime_example py_float_def)

text \<open>
  Claim C6. For every close approach that the constructor makes from a time string,
  parsing the text that \<open>time_str\<close> gives for the stored date-time yields the stored
  date-time again; and when the time string is \<open>2020-Jan-01 12:30\<close>, \<open>time_str\<close> is
  that very string.
\<close>

theorem C6_time_str_roundtrip:
  "CloseApproach_init strtod dsg t ds vl info = Inr ca \<Longrightarrow>
     cd_to_datetime (time_str ca) = Inr (time ca)
     \<and> (t = ''2020-Jan-01 12:30'' \<longrightarrow> time_str ca = ''2020-Jan-01 12:30'')"
proof -
  assume made: "CloseApproach_init strtod dsg t ds vl info = Inr ca"
  have parsed: "cd_to_datetime t = Inr (time ca)"
    by (rule CloseApproach_init_Inr(1) [OF made])
  have "valid_datetime (time ca)"
    by (rule cd_to_datetime_valid [OF parsed])
  then have "cd_to_datetime (time_str ca) = Inr (time ca)"
    unfolding time_str_def by (rule cd_to_datetime_datetime_to_str)
  moreover have "time_str ca = t"
    unfolding time_str_def by (rule datetime_to_str_cd_to_datetime [OF parsed])
  ultimately show ?thesis
    by simp
qed

theorem C6_time_str_roundtrip_witness:
  "CloseApproach_init
     (\<lambda>s. if s = ''0.5'' then Some (Finite (1 / 2))
           else if s = ''12.5'' then Some (Finite (25 / 2)) else None)
     ''433'' ''2020-Jan-01 12:30'' ''0.5'' ''12.5'' []
   = Inr (CloseApproach ''433''
            \<lparr>year = 2020, month = 1, day = 1, hour = 12, minute = 30\<rparr>
            (Finite (1 / 2)) (Finite (25 / 2)) None)
   \<and> time_str (CloseApproach ''433''
        \<lparr>year = 2020, month = 1, day = 1, hour = 12, minute = 30\<rparr>
        (Finite (1 / 2)) (Finite (25 / 2)) None) = ''2020-Jan-01 12:30''
   \<and> cd_to_datetime (time_str (CloseApproach ''433''
        \<lparr>year = 2020, month = 1, day = 1, hour = 12, minute = 30\<rparr>
        (Finite (1 / 2)) (Finite (25 / 2)) None))
     = Inr \<lparr>year = 2020, month = 1, day = 1, hour = 12, minute = 30\<rparr>"
  using CloseApproach_init_example C6_time_str_roundtrip [OF CloseApproach_init_example]
    cd_to_datetime_example
  by simp

section \<open>Serialisation\<close>

text \<open>
  Claim C4. For every close approach with an object linked, \<open>json_serialize\<close> returns
  a dictionary whose keys are exactly \<open>datetime_utc\<close>, \<open>distance_au\<close>,
  \<open>velocity_km_s\<close> and \<open>neo\<close>; the value under \<open>neo\<close> is a dictionary whose keys are
  exactly \<open>designation\<close>, \<open>name\<close>, \<open>diameter_km\<close> and \<open>potentially_hazardous\<close>, holding
  the linked object's attributes, its designation among them. \<open>csv_serialize\<close> returns
  the flat dictionary, with the same three keys of the approach followed by the same four
  keys and values of the object. (The keys of a dictionary are \<open>map fst\<close> of its items,
  the value under a key is \<open>map_of\<close>.)
\<close>

theorem C4_serialize_linked:
  "neo self = Some n \<Longrightarrow>
     (\<exists>d nd. json_serialize self = Inr d
        \<and> map fst d = [''datetime_utc'', ''distance_au'', ''velocity_km_s'', ''neo'']
        \<and> map_of d ''datetime_utc'' = Some (PyStr (time_str self))
        \<and> map_of d ''distance_au'' = Some (PyFloat (distance self))
        \<and> map_of d ''velocity_km_s'' = Some (PyFloat (velocity self))
        \<and> map_of d ''neo'' = Some (PyDict nd)
        \<and> map fst nd = [''designation'', ''name'', ''diameter_km'', ''potentially_hazardous'']
        \<and> map_of nd ''designation'' = Some (PyStr (designation n))
        \<and> map_of nd ''name'' = Some (opt_str_val (name n))
        \<and> map_of nd ''diameter_km'' = Some (PyFloat (diameter n))
        \<and> map_of nd ''potentially_hazardous'' = Some (PyBool (hazardous n)))
     \<and> (\<exists>c. csv_serialize self = Inr c
        \<and> map fst c = [''datetime_utc'', ''distance_au'', ''velocity_km_s'',
                        ''designation'', ''name'', ''diameter_km'', ''potentially_hazardous'']
        \<and> map_of c ''datetime_utc'' = Some (PyStr (time_str self))
        \<and> map_of c ''distance_au'' = Some (PyFloat (distance self))
        \<and> map_of c ''velocity_km_s'' = Some (PyFloat (velocity self))
        \<and> map_of c ''designation'' = Some (PyStr (designation n))
        \<and> map_of c ''name'' = Some (opt_str_val (name n))
        \<and> map_of c ''diameter_km'' = Some (PyFloat (diameter n))
        \<and> map_of c ''potentially_hazardous'' = Some (PyBool (hazardous n)))"
proof (intro conjI)
  assume linked: "neo self = Some n"
  show "\<exists>d nd. json_serialize self = Inr d
        \<and> map fst d = [''datetime_utc'', ''distance_au'', ''velocity_km_s'', ''neo'']
        \<and> map_of d ''datetime_utc'' = Some (PyStr (time_str self))
        \<and> map_of d ''distance_au'' = Some (PyFloat (distance self))
        \<and> map_of d ''velocity_km_s'' = Some (PyFloat (velocity self))
        \<and> map_of d ''neo'' = Some (PyDict nd)
        \<and> map fst nd = [''designation'', ''name'', ''diameter_km'', ''potentially_hazardous'']
        \<and> map_of nd ''designation'' = Some (PyStr (designation n))
        \<and> map_of nd ''name'' = Some (opt_str_val (name n))
        \<and> map_of nd ''diameter_km'' = Some (PyFloat (diameter n))
        \<and> map_of nd ''potentially_hazardous'' = Some (PyBool (hazardous n))"
    using linked by (simp add: json_serialize_def)
  show "\<exists>c. csv_serialize self = Inr c
        \<and> map fst c = [''datetime_utc'', ''distance_au'', ''velocity_km_s'',
                        ''designation'', ''name'', ''diameter_km'', ''potentially_hazardous'']
        \<and> map_of c ''datetime_utc'' = Some (PyStr (time_str self))
        \<and> map_of c ''distance_au'' = Some (PyFloat (distance self))
        \<and> map_of c ''velocity_km_s'' = Some (PyFloat (velocity self))
        \<and> map_of c ''designation'' = Some (PyStr (designation n))
        \<and> map_of c ''name'' = Some (opt_str_val (name n))
        \<and> map_of c ''diameter_km'' = Some (PyFloat (diameter n))
        \<and> map_of c ''potentially_hazardous'' = Some (PyBool (hazardous n))"
    using linked by (simp add: csv_serialize_def)
qed

theorem C4_serialize_linked_witness:
  "json_serialize
     (CloseApproach ''433''
        \<lparr>year = 2020, month = 1, day = 1, hour = 12, minute = 30\<rparr>
        (Finite (1 / 2)) (Finite (25 / 2))
        (Some (NearEarthObject ''433'' (Some ''Eros'') NaN False [])))
   = Inr [(''datetime_utc'', PyStr ''2020-Jan-01 12:30''),
          (''distance_au'', PyFloat (Finite (1 / 2))),
          (''velocity_km_s'', PyFloat (Finite (25 / 2))),
          (''neo'', PyDict
             [(''designation'', PyStr ''433''),
              (''name'', PyStr ''Eros''),
              (''diameter_km'', PyFloat NaN),
              (''potentially_hazardous'', PyBool False)])]
   \<and> csv_serialize
     (CloseApproach ''433''
        \<lparr>year = 2020, month = 1, day = 1, hour = 12, minute = 30\<rparr>
        (Finite (1 / 2)) (Finite (25 / 2))
        (Some (NearEarthObject ''433'' (Some ''Eros'') NaN False [])))
   = Inr [(''datetime_utc'', PyStr ''2020-Jan-01 12:30''),
          (''distance_au'', PyFloat (Finite (1 / 2))),
          (''velocity_km_s'', PyFloat (Finite (25 / 2))),
          (''designation'', PyStr ''433''),
          (''name'', PyStr ''Eros''),
          (''diameter_km'', PyFloat NaN),
          (''potentially_hazardous'', PyBool False)]"
proof -
  have t: "datetime_to_str \<lparr>year = 2020, month = 1, day = 1, hour = 12, minute = 30\<rparr>
             = ''2020-Jan-01 12:30''"
    by code_simp
  show ?thesis
    using C4_serialize_linked
            [of "CloseApproach ''433''
                   \<lparr>year = 2020, month = 1, day = 1, hour = 12, minute = 30\<rparr>
                   (Finite (1 / 2)) (Finite (25 / 2))
                   (Some (NearEarthObject ''433'' (Some ''Eros'') NaN False []))"
                "NearEarthObject ''433'' (Some ''Eros'') NaN False []"]
          t
    by (simp add: json_serialize_def csv_serialize_def time_str_def opt_str_val_def)
qed

text \<open>
  Claim C5. For every close approach whose \<open>neo\<close> is still \<open>None\<close>, \<open>json_serialize\<close>
  and \<open>csv_serialize\<close> both fail with the error of reading an attribute of \<open>None\<close>; for
  every close approach with an object linked, both return a dictionary.
\<close>

theorem C5_serialize_needs_link:
  "(neo self = None \<longrightarrow>
      json_serialize self = Inl AttributeError \<and> csv_serialize self = Inl AttributeError)
   \<and> (neo self = Some n \<longrightarrow>
      (\<exists>d. json_serialize self = Inr d) \<and> (\<exists>c. csv_serialize self = Inr c))"
  by (simp add: json_serialize_def csv_serialize_def)

theorem C5_serialize_needs_link_witness:
  "json_serialize
     (CloseApproach ''433''
        \<lparr>year = 2020, month = 1, day = 1, hour = 12, minute = 30\<rparr>
        (Finite (1 / 2)) (Finite (25 / 2)) None) = Inl AttributeError
   \<and> csv_serialize
     (CloseApproach ''433''
        \<lparr>year = 2020, month = 1, day = 1, hour = 12, minute = 30\<rparr>
        (Finite (1 / 2)) (Finite (25 / 2)) None) = Inl AttributeError
   \<and> (\<exists>d. json_serialize
        (CloseApproach ''433''
           \<lparr>year = 2020, month = 1, day = 1, hour = 12, minute = 30\<rparr>
           (Finite (1 / 2)) (Finite (25 / 2))
           (Some (NearEarthObject ''433'' (Some ''Eros'') NaN False []))) = Inr d)
   \<and> (\<exists>c. csv_serialize
        (CloseApproach ''433''
           \<lparr>year = 2020, month = 1, day = 1, hour = 12, minute = 30\<rparr>
           (Finite (1 / 2)) (Finite (25 / 2))
           (Some (NearEarthObject ''433'' (Some ''Eros'') NaN False []))) = Inr c)"
  using C5_serialize_needs_link
          [of "CloseApproach ''433''
                 \<lparr>year = 2020, month = 1, day = 1, hour = 12, minute = 30\<rparr>
                 (Finite (1 / 2)) (Finite (25 / 2)) None"
              "NearEarthObject ''433'' (Some ''Eros'') NaN False []"]
        C5_serialize_needs_link
          [of "CloseApproach ''433''
                 \<lparr>year = 2020, month = 1, day = 1, hour = 12, minute = 30\<rparr>
                 (Finite (1 / 2)) (Finite (25 / 2))
                 (Some (NearEarthObject ''433'' (Some ''Eros'') NaN False []))"
              "NearEarthObject ''433'' (Some ''Eros'') NaN False []"]
  by simp

end
